theory Spec2Isabelle
  imports Main
begin

section \<open>Data model of \<open>src/index.js\<close>\<close>

text \<open>
  The service keeps two collections in a document store, \<open>Article\<close> and \<open>User\<close>, and
  reaches them only through the object mapper's \<open>find\<close>, \<open>findOne\<close>, \<open>findById\<close>,
  \<open>save\<close> and \<open>findOneAndDelete\<close>. The store is modelled as a record of two lists
  (documents in insertion order) and a counter from which fresh document ids are drawn.
  An optional field of a document is an \<open>option\<close>; \<open>None\<close> stands for both
  \<open>undefined\<close> and \<open>null\<close>. For the \<open>likes\<close> array of an article, \<open>None\<close> is a document
  stored without the field; a stored \<open>null\<close> is not represented, since the program never
  writes one.
\<close>

subsection \<open>Object ids\<close>

text \<open>
  A document id is a 96-bit number. Its string form (\<open>toString\<close>) is 24 lower-case
  hexadecimal digits; a string is cast to an id when it consists of exactly 24
  hexadecimal digits of either case, and the cast fails otherwise.
\<close>

datatype objectId = ObjectId nat

definition hexDigit :: "nat \<Rightarrow> char" where
  "hexDigit d = ''0123456789abcdef'' ! (d mod 16)"

fun toHex :: "nat \<Rightarrow> nat \<Rightarrow> string" where
  "toHex 0 n = []"
| "toHex (Suc k) n = toHex k (n div 16) @ [hexDigit n]"

fun toString :: "objectId \<Rightarrow> string" where
  "toString (ObjectId n) = toHex 24 n"

definition hexValue :: "char \<Rightarrow> nat option" where
  "hexValue c =
     (let k = (of_char c :: nat) in
      if 48 \<le> k \<and> k \<le> 57 then Some (k - 48)
      else if 97 \<le> k \<and> k \<le> 102 then Some (k - 87)
      else if 65 \<le> k \<and> k \<le> 70 then Some (k - 55)
      else None)"

fun fromHex :: "nat \<Rightarrow> string \<Rightarrow> nat option" where
  "fromHex acc [] = Some acc"
| "fromHex acc (c # cs) =
     (case hexValue c of None \<Rightarrow> None | Some d \<Rightarrow> fromHex (16 * acc + d) cs)"

definition castObjectId :: "string \<Rightarrow> objectId option" where
  "castObjectId s =
     (if length s = 24 then map_option ObjectId (fromHex 0 s) else None)"

subsection \<open>Documents\<close>

text \<open>\<open>source: { id, name, country }\<close> of the article schema.\<close>

record source =
  source_id :: "string option"
  name :: "string option"
  country :: "string option"

text \<open>
  An item of the feed's \<open>articles\<close> array. \<open>publishedAt\<close> is the instant the schema's
  \<open>Date\<close> field stores, in milliseconds since the epoch.
\<close>

record feed_article =
  title :: "string option"
  description :: "string option"
  url :: "string option"
  publishedAt :: "int option"
  source :: "source option"
  urlToImage :: "string option"

text \<open>
  A stored article (\<open>articleSchema\<close>): the feed's fields, the document id, the category
  and the ids of the users who liked it.
\<close>

record article = feed_article +
  article_id :: objectId
  category :: "string option"
  likes :: "objectId list option"

text \<open>
  An article as the object mapper hands it to the program: a document stored without
  its \<open>likes\<close> array is loaded with an empty one, the schema's default for an array.
\<close>

definition likesOf :: "article \<Rightarrow> objectId list" where
  "likesOf a = (case likes a of None \<Rightarrow> [] | Some ls \<Rightarrow> ls)"

definition loaded :: "article \<Rightarrow> article" where
  "loaded a = a\<lparr>likes := Some (likesOf a)\<rparr>"

text \<open>A stored user (\<open>UserSchema\<close>).\<close>

record user =
  user_id :: objectId
  clerkUserId :: string
  firstName :: "string option"
  lastName :: "string option"
  email :: "string option"

record db =
  articles :: "article list"
  users :: "user list"
  nextId :: nat

text \<open>Errors thrown in the handlers, each with its message.\<close>

datatype error =
    ValidationError string
  | DuplicateKeyError string
  | CastError string
  | TypeError string
  | Error string

fun message :: "error \<Rightarrow> string" where
  "message (ValidationError m) = m"
| "message (DuplicateKeyError m) = m"
| "message (CastError m) = m"
| "message (TypeError m) = m"
| "message (Error m) = m"

text \<open>What the process does besides changing the store: requests to the feed and
  lines on the console.\<close>

datatype event = HttpGet string | ConsoleLog string | ConsoleError string

section \<open>Ingestion\<close>

text \<open>
  \<open>Article.findOne({ title: t })\<close>: the first stored article whose title is \<open>t\<close>.
\<close>

definition findOneByTitle :: "string option \<Rightarrow> article list \<Rightarrow> article option" where
  "findOneByTitle t as = find (\<lambda>a. title a = t) as"

text \<open>
  \<open>new Article({...}).save()\<close>. The schema declares
  \<open>title: { type: String, required: true, unique: true }\<close>: a document whose title is
  missing or the empty string fails validation, and the unique index rejects a title
  that is already stored. Otherwise the document is appended with a fresh id and an
  empty \<open>likes\<close> array (the schema's default for an array field).
\<close>

definition saveNewArticle :: "string \<Rightarrow> feed_article \<Rightarrow> db \<Rightarrow> error + db" where
  "saveNewArticle cat fa d =
     (if title fa = None \<or> title fa = Some [] then
        Inl (ValidationError ''Article validation failed: title: Path title is required.'')
      else if \<exists>a \<in> set (articles d). title a = title fa then
        Inl (DuplicateKeyError ''E11000 duplicate key error'')
      else
        Inr (d\<lparr>articles := articles d @
                 [\<lparr>title = title fa,
                   description = description fa,
                   url = url fa,
                   publishedAt = publishedAt fa,
                   source = source fa,
                   urlToImage = (if urlToImage fa = Some [] then None else urlToImage fa),
                   article_id = ObjectId (nextId d),
                   category = Some cat,
                   likes = Some []\<rparr>],
               nextId := nextId d + 1\<rparr>))"

text \<open>How a template or \<open>console.log\<close> prints an optional string.\<close>

fun render :: "string option \<Rightarrow> string" where
  "render None = ''undefined''"
| "render (Some s) = s"

text \<open>
  The body of the loop of \<open>fetchAndSaveArticles\<close> (lines 63 to 81): look the title up,
  save the article when no stored article has it, and log which of the two happened.
\<close>

definition insertIfAbsent :: "string \<Rightarrow> feed_article \<Rightarrow> db \<Rightarrow> error + (db \<times> event list)" where
  "insertIfAbsent cat fa d =
     (case findOneByTitle (title fa) (articles d) of
        None \<Rightarrow>
          (case saveNewArticle cat fa d of
             Inl e \<Rightarrow> Inl e
           | Inr d' \<Rightarrow> Inr (d', [ConsoleLog (''New article saved: '' @ render (title fa))]))
      | Some existingArticle \<Rightarrow>
          Inr (d, [ConsoleLog (''Article already exists: '' @ render (title fa))]))"

text \<open>
  The loop of \<open>fetchAndSaveArticles\<close> over the feed's articles, in the order returned.
  A throw inside the loop leaves the loop; what was saved before it stays saved.
\<close>

fun saveArticles :: "string \<Rightarrow> feed_article list \<Rightarrow> db \<Rightarrow> error option \<times> db \<times> event list" where
  "saveArticles cat [] d = (None, d, [])"
| "saveArticles cat (fa # fas) d =
     (case insertIfAbsent cat fa d of
        Inl e \<Rightarrow> (Some e, d, [])
      | Inr (d', out) \<Rightarrow>
          (case saveArticles cat fas d' of (r, d'', out') \<Rightarrow> (r, d'', out @ out')))"

text \<open>
  \<open>fetchAndSaveArticles(category)\<close>. The feed is outside the program: \<open>feed c\<close> is what
  \<open>axios.get\<close> yields for category \<open>c\<close>, the articles of the response or the error it
  throws. Any error inside the \<open>try\<close> is logged and replaced by a new error whose
  message names the category.
\<close>

definition fetchAndSaveArticles ::
  "(string \<Rightarrow> error + feed_article list) \<Rightarrow> string \<Rightarrow> db \<Rightarrow> (error + string) \<times> db \<times> event list" where
  "fetchAndSaveArticles feed cat d =
     (case feed cat of
        Inl e \<Rightarrow>
          (Inl (Error (''An error occurred while fetching '' @ cat @ '' headlines.'')), d,
           [HttpGet cat, ConsoleError (''Error fetching '' @ cat @ '' headlines: '' @ message e)])
      | Inr arts \<Rightarrow>
          (case saveArticles cat arts d of
             (Some e, d', out) \<Rightarrow>
               (Inl (Error (''An error occurred while fetching '' @ cat @ '' headlines.'')), d',
                HttpGet cat # out @
                  [ConsoleError (''Error fetching '' @ cat @ '' headlines: '' @ message e)])
           | (None, d', out) \<Rightarrow>
               (Inr (''Headlines for category '' @ cat @
                     '' fetched and saved to the database (if new).''), d',
                HttpGet cat # out)))"

definition categories :: "string list" where
  "categories = [''general'', ''sports'', ''technology'', ''health'', ''business'']"

text \<open>
  The loop of \<open>fetchAllCategories\<close>: each category in turn, inside its own
  \<open>try\<close>/\<open>catch\<close>; the result's message or the caught error's message is logged.
\<close>

fun fetchCategories ::
  "(string \<Rightarrow> error + feed_article list) \<Rightarrow> string list \<Rightarrow> db \<Rightarrow> db \<times> event list" where
  "fetchCategories feed [] d = (d, [])"
| "fetchCategories feed (c # cs) d =
     (case fetchAndSaveArticles feed c d of
        (r, d', out) \<Rightarrow>
          (case fetchCategories feed cs d' of
             (d'', out') \<Rightarrow>
               (d'',
                out @
                [case r of
                   Inr m \<Rightarrow> ConsoleLog m
                 | Inl e \<Rightarrow> ConsoleError (''Error fetching '' @ c @ '' articles: '' @ message e)]
                @ out')))"

definition fetchAllCategories ::
  "(string \<Rightarrow> error + feed_article list) \<Rightarrow> db \<Rightarrow> db \<times> event list" where
  "fetchAllCategories feed d = fetchCategories feed categories d"

text \<open>The categories requested from the feed, in the order of the requests.\<close>

fun requested :: "event list \<Rightarrow> string list" where
  "requested [] = []"
| "requested (HttpGet c # es) = c # requested es"
| "requested (_ # es) = requested es"

section \<open>Responses\<close>

text \<open>
  A stored article as \<open>GET /headlines\<close> returns it: the article's own fields
  (\<open>...article.toObject()\<close>) and \<open>likeCount\<close>.
\<close>

record headline = article +
  likeCount :: nat

text \<open>The JSON bodies the handlers send, and a response: status code and body.\<close>

datatype json =
    Message string
  | SuccessMessage bool string
  | ErrorMessage string
  | LikesCount nat
  | Articles "article list"
  | Headlines "headline list"

record response =
  status :: nat
  body :: json

section \<open>Webhook: \<open>POST /api/webhooks\<close>\<close>

text \<open>
  The payload \<open>{ type, data: { id, first_name, last_name, email_addresses: [{ email }] } }\<close>.
  A key that the payload lacks is \<open>None\<close>; reading a property of a missing \<open>data\<close> or
  \<open>email_addresses\<close> throws a \<open>TypeError\<close>, which the handler's \<open>catch\<close> answers with 500
  and the error's message.
\<close>

datatype email_address = EmailAddress "string option"

fun address_email :: "email_address \<Rightarrow> string option" where
  "address_email (EmailAddress e) = e"

record user_data =
  data_id :: "string option"
  first_name :: "string option"
  last_name :: "string option"
  email_addresses :: "email_address list option"

record webhook_body =
  event_type :: "string option"
  data :: "user_data option"

text \<open>
  \<open>new User({...}).save()\<close>. The schema declares
  \<open>clerkUserId: { type: String, required: true, unique: true }\<close>: the unique index
  rejects an id that a stored user already has.
\<close>

definition saveNewUser ::
  "string \<Rightarrow> string option \<Rightarrow> string option \<Rightarrow> string option \<Rightarrow> db \<Rightarrow> error + db" where
  "saveNewUser cid fn ln em d =
     (if cid = [] then
        Inl (ValidationError ''User validation failed: clerkUserId: Path clerkUserId is required.'')
      else if \<exists>u \<in> set (users d). clerkUserId u = cid then
        Inl (DuplicateKeyError ''E11000 duplicate key error'')
      else
        Inr (d\<lparr>users := users d @
                 [\<lparr>user_id = ObjectId (nextId d), clerkUserId = cid,
                   firstName = fn, lastName = ln, email = em\<rparr>],
               nextId := nextId d + 1\<rparr>))"

text \<open>\<open>User.findOneAndDelete({ clerkUserId: id })\<close>: the first user with that id goes.\<close>

fun findOneAndDelete :: "string option \<Rightarrow> user list \<Rightarrow> user list" where
  "findOneAndDelete i [] = []"
| "findOneAndDelete i (u # us) =
     (if Some (clerkUserId u) = i then us else u # findOneAndDelete i us)"

definition webhooks :: "webhook_body \<Rightarrow> db \<Rightarrow> db \<times> response" where
  "webhooks b d =
     (if event_type b = Some ''user.created'' then
        (case data b of
           None \<Rightarrow>
             (d, \<lparr>status = 500,
                  body = SuccessMessage False ''Cannot read properties of undefined (reading 'id')''\<rparr>)
         | Some userData \<Rightarrow>
             (case email_addresses userData of
                None \<Rightarrow>
                  (d, \<lparr>status = 500,
                       body = SuccessMessage False ''Cannot read properties of undefined (reading '0')''\<rparr>)
              | Some addrs \<Rightarrow>
                  (let clerkUserId = data_id userData;
                       firstName = first_name userData;
                       lastName = last_name userData;
                       primaryEmail = (case addrs of [] \<Rightarrow> None | a # _ \<Rightarrow> address_email a)
                   in
                     (case clerkUserId of
                        None \<Rightarrow>
                          (d, \<lparr>status = 400,
                               body = SuccessMessage False ''clerkUserId is required''\<rparr>)
                      | Some cid \<Rightarrow>
                          if cid = [] then
                            (d, \<lparr>status = 400,
                                 body = SuccessMessage False ''clerkUserId is required''\<rparr>)
                          else
                            (case saveNewUser cid firstName lastName primaryEmail d of
                               Inl err \<Rightarrow>
                                 (d, \<lparr>status = 500, body = SuccessMessage False (message err)\<rparr>)
                             | Inr d' \<Rightarrow>
                                 (d', \<lparr>status = 200,
                                       body = SuccessMessage True ''User created successfully''\<rparr>))))))
      else if event_type b = Some ''user.deleted'' then
        (case data b of
           None \<Rightarrow>
             (d, \<lparr>status = 500,
                  body = SuccessMessage False ''Cannot read properties of undefined (reading 'id')''\<rparr>)
         | Some userData \<Rightarrow>
             (d\<lparr>users := findOneAndDelete (data_id userData) (users d)\<rparr>,
              \<lparr>status = 200, body = SuccessMessage True ''User deleted successfully''\<rparr>))
      else
        (d, \<lparr>status = 400, body = SuccessMessage False ''Unknown event type''\<rparr>))"

section \<open>Likes: \<open>POST /articles/:id/like\<close> and \<open>POST /articles/:id/unlike\<close>\<close>

text \<open>
  \<open>Article.findById(articleId)\<close>: the path parameter is cast to an object id (a string
  that is not one makes the query throw), and the article with that id is looked up
  and loaded.
\<close>

definition findById :: "string \<Rightarrow> article list \<Rightarrow> error + article option" where
  "findById articleId as =
     (case castObjectId articleId of
        None \<Rightarrow> Inl (CastError ''Cast to ObjectId failed'')
      | Some i \<Rightarrow> Inr (map_option loaded (find (\<lambda>a. article_id a = i) as)))"

text \<open>
  \<open>article.likes.includes(userId)\<close> on the document's array of object ids, with the
  request's string: an entry is equal to the string when its string form is.
\<close>

definition likes_includes :: "objectId list \<Rightarrow> string \<Rightarrow> bool" where
  "likes_includes ls userId = list_ex (\<lambda>i. toString i = userId) ls"

text \<open>
  \<open>article.save()\<close> of a loaded article: the stored document with its id is replaced.
  Both handlers read \<open>article.likes\<close> of the loaded article, which is an array; \<open>like\<close>
  saves only when it pushed, \<open>unlike\<close> assigns the filtered array and always saves.
\<close>

fun saveArticle :: "article \<Rightarrow> article list \<Rightarrow> article list" where
  "saveArticle a [] = []"
| "saveArticle a (x # xs) =
     (if article_id x = article_id a then a # xs else x # saveArticle a xs)"

definition like :: "string \<Rightarrow> string \<Rightarrow> db \<Rightarrow> db \<times> response" where
  "like articleId userId d =
     (case findById articleId (articles d) of
        Inl err \<Rightarrow> (d, \<lparr>status = 500, body = Message ''Failed to like article''\<rparr>)
      | Inr None \<Rightarrow> (d, \<lparr>status = 404, body = Message ''Article not found''\<rparr>)
      | Inr (Some a) \<Rightarrow>
          if \<not> likes_includes (likesOf a) userId then
            (case castObjectId userId of
               None \<Rightarrow> (d, \<lparr>status = 500, body = Message ''Failed to like article''\<rparr>)
             | Some u \<Rightarrow>
                 (d\<lparr>articles := saveArticle (a\<lparr>likes := Some (likesOf a @ [u])\<rparr>) (articles d)\<rparr>,
                  \<lparr>status = 200, body = LikesCount (length (likesOf a @ [u]))\<rparr>))
          else (d, \<lparr>status = 200, body = LikesCount (length (likesOf a))\<rparr>))"

definition unlike :: "string \<Rightarrow> string \<Rightarrow> db \<Rightarrow> db \<times> response" where
  "unlike articleId userId d =
     (case findById articleId (articles d) of
        Inl err \<Rightarrow> (d, \<lparr>status = 500, body = Message ''Failed to unlike article''\<rparr>)
      | Inr None \<Rightarrow> (d, \<lparr>status = 404, body = Message ''Article not found''\<rparr>)
      | Inr (Some a) \<Rightarrow>
          (d\<lparr>articles :=
               saveArticle (a\<lparr>likes := Some (filter (\<lambda>i. toString i \<noteq> userId) (likesOf a))\<rparr>)
                 (articles d)\<rparr>,
           \<lparr>status = 200,
            body = LikesCount (length (filter (\<lambda>i. toString i \<noteq> userId) (likesOf a)))\<rparr>))"

section \<open>Search: \<open>GET /search\<close>\<close>

text \<open>
  Three things the handler uses belong to the runtime and the store, not to the program:
  \<^item> \<open>regexTest p\<close>: the store's matcher for the pattern \<open>p\<close> under \<open>$options: 'i'\<close>, or
    \<open>None\<close> when the store rejects \<open>p\<close> as a pattern;
  \<^item> \<open>dateParse s\<close>: the time value of \<open>new Date(s)\<close> in milliseconds since the epoch, or
    \<open>None\<close> for an invalid date;
  \<^item> \<open>localTZA t isUTC\<close>: the offset of local server time from UTC in milliseconds, as
    ECMAScript's \<open>LocalTZA\<close> gives it: at the instant \<open>t\<close> when \<open>isUTC\<close> holds, and for the
    local time value \<open>t\<close> otherwise. It varies with \<open>t\<close> where the zone has daylight saving.
\<close>

record runtime =
  regexTest :: "string \<Rightarrow> (string \<Rightarrow> bool) option"
  dateParse :: "string \<Rightarrow> int option"
  localTZA :: "int \<Rightarrow> bool \<Rightarrow> int"

text \<open>The query string \<open>{ title, country, category, date }\<close>.\<close>

record search_query =
  query_title :: "string option"
  query_country :: "string option"
  query_category :: "string option"
  query_date :: "string option"

text \<open>
  \<open>Date.prototype.setHours(h, m, s, ms)\<close> as ECMAScript defines it: the time value is
  taken to local time (\<open>LocalTime\<close>), the time of day is replaced within that local day
  (\<open>MakeDate (Day t) (MakeTime h m s ms)\<close>), the result is taken back (\<open>UTC\<close>) and
  clipped to the range of time values (\<open>TimeClip\<close>). The date object is set to the result,
  which is also returned; an invalid date stays invalid.
\<close>

definition msPerDay :: int where
  "msPerDay = 86400000"

definition timeClip :: "int \<Rightarrow> int option" where
  "timeClip t = (if abs t \<le> 8640000000000000 then Some t else None)"

definition setHours ::
  "(int \<Rightarrow> bool \<Rightarrow> int) \<Rightarrow> int \<Rightarrow> int \<Rightarrow> int \<Rightarrow> int \<Rightarrow> int option \<Rightarrow> int option" where
  "setHours tza h m sec ms dateObj =
     (case dateObj of
        None \<Rightarrow> None
      | Some tv \<Rightarrow>
          (let t = tv + tza tv True;
               date = (t div msPerDay) * msPerDay
                      + (h * 3600000 + m * 60000 + sec * 1000 + ms)
           in timeClip (date - tza date False)))"

text \<open>
  The filter object \<open>searchCriteria\<close>: a pattern for \<open>title\<close>, \<open>source.country\<close> and
  \<open>category\<close>, and the pair \<open>($gte, $lt)\<close> for \<open>publishedAt\<close>; a key that was not set
  is \<open>None\<close>.
\<close>

record search_criteria =
  criteria_title :: "string option"
  criteria_country :: "string option"
  criteria_category :: "string option"
  criteria_publishedAt :: "(int option \<times> int option) option"

text \<open>A query parameter is truthy when it is present and not the empty string.\<close>

fun truthy :: "string option \<Rightarrow> string option" where
  "truthy None = None"
| "truthy (Some s) = (if s = [] then None else Some s)"

definition buildCriteria :: "runtime \<Rightarrow> search_query \<Rightarrow> search_criteria" where
  "buildCriteria rt q =
     \<lparr>criteria_title = truthy (query_title q),
      criteria_country = truthy (query_country q),
      criteria_category = truthy (query_category q),
      criteria_publishedAt =
        (case truthy (query_date q) of
           None \<Rightarrow> None
         | Some date \<Rightarrow>
             (let dateObj = dateParse rt date;
                  gte = setHours (localTZA rt) 0 0 0 0 dateObj;
                  lt = setHours (localTZA rt) 23 59 59 999 gte
              in Some (gte, lt)))\<rparr>"

text \<open>
  \<open>{ field: { $regex: p, $options: 'i' } }\<close> holds of a document whose field is a string
  that the pattern matches; \<open>{ publishedAt: { $gte: a, $lt: b } }\<close> holds of a document
  whose \<open>publishedAt\<close> is a date \<open>t\<close> with \<open>a \<le> t\<close> and \<open>t < b\<close>.
\<close>

definition regexHolds :: "runtime \<Rightarrow> string option \<Rightarrow> string option \<Rightarrow> bool" where
  "regexHolds rt pattern field =
     (case pattern of
        None \<Rightarrow> True
      | Some p \<Rightarrow>
          (case regexTest rt p of
             None \<Rightarrow> False
           | Some test \<Rightarrow> (case field of None \<Rightarrow> False | Some s \<Rightarrow> test s)))"

definition rangeHolds :: "(int option \<times> int option) option \<Rightarrow> int option \<Rightarrow> bool" where
  "rangeHolds bounds field =
     (case bounds of
        None \<Rightarrow> True
      | Some (Some gte, Some lt) \<Rightarrow>
          (case field of None \<Rightarrow> False | Some t \<Rightarrow> gte \<le> t \<and> t < lt)
      | Some _ \<Rightarrow> False)"

definition sourceCountry :: "article \<Rightarrow> string option" where
  "sourceCountry a = (case source a of None \<Rightarrow> None | Some src \<Rightarrow> country src)"

definition matchesCriteria :: "runtime \<Rightarrow> search_criteria \<Rightarrow> article \<Rightarrow> bool" where
  "matchesCriteria rt c a =
     (regexHolds rt (criteria_title c) (title a)
      \<and> regexHolds rt (criteria_country c) (sourceCountry a)
      \<and> regexHolds rt (criteria_category c) (category a)
      \<and> rangeHolds (criteria_publishedAt c) (publishedAt a))"

definition patternOk :: "runtime \<Rightarrow> string option \<Rightarrow> bool" where
  "patternOk rt pattern = (case pattern of None \<Rightarrow> True | Some p \<Rightarrow> regexTest rt p \<noteq> None)"

definition rangeOk :: "(int option \<times> int option) option \<Rightarrow> bool" where
  "rangeOk bounds = (case bounds of None \<Rightarrow> True | Some (gte, lt) \<Rightarrow> gte \<noteq> None \<and> lt \<noteq> None)"

text \<open>
  \<open>Article.find(searchCriteria)\<close>: the query throws when a date of the filter is invalid
  or the store rejects a pattern; otherwise it yields the stored articles of which every
  key of the filter holds, in stored order, each loaded.
\<close>

definition findArticles :: "runtime \<Rightarrow> search_criteria \<Rightarrow> article list \<Rightarrow> error + article list" where
  "findArticles rt c as =
     (if \<not> rangeOk (criteria_publishedAt c) then
        Inl (CastError ''Cast to date failed'')
      else if \<not> (patternOk rt (criteria_title c) \<and> patternOk rt (criteria_country c)
                 \<and> patternOk rt (criteria_category c)) then
        Inl (Error ''Regular expression is invalid'')
      else Inr (map loaded (filter (matchesCriteria rt c) as)))"

definition search :: "runtime \<Rightarrow> search_query \<Rightarrow> db \<Rightarrow> db \<times> response" where
  "search rt q d =
     (case findArticles rt (buildCriteria rt q) (articles d) of
        Inl err \<Rightarrow>
          (d, \<lparr>status = 500,
               body = Message ''An error occurred while searching for articles''\<rparr>)
      | Inr searchResults \<Rightarrow>
          if length searchResults = 0 then
            (d, \<lparr>status = 404, body = Message ''No articles found matching your query''\<rparr>)
          else (d, \<lparr>status = 200, body = Articles searchResults\<rparr>))"

section \<open>Category routes\<close>

text \<open>
  \<open>Article.find({ category: c })\<close>: the stored articles whose category is \<open>c\<close>, in stored
  order, each loaded.
\<close>

definition findByCategory :: "string \<Rightarrow> article list \<Rightarrow> article list" where
  "findByCategory c as = map loaded (filter (\<lambda>a. category a = Some c) as)"

text \<open>\<open>article.likes ? article.likes.length : 0\<close>.\<close>

definition likeCountOf :: "article \<Rightarrow> nat" where
  "likeCountOf a = (case likes a of None \<Rightarrow> 0 | Some ls \<Rightarrow> length ls)"

definition getHeadlines :: "db \<Rightarrow> db \<times> response" where
  "getHeadlines d =
     (let as = findByCategory ''general'' (articles d);
          response = map (\<lambda>a. article.extend a (headline.fields (likeCountOf a))) as
      in (d, \<lparr>status = 200, body = Headlines response\<rparr>))"

definition getSports :: "db \<Rightarrow> db \<times> response" where
  "getSports d =
     (let sportsArticles = findByCategory ''sports'' (articles d)
      in (d, \<lparr>status = 200, body = Articles sportsArticles\<rparr>))"

definition getHealth :: "db \<Rightarrow> db \<times> response" where
  "getHealth d =
     (let sportsArticles = findByCategory ''health'' (articles d)
      in (d, \<lparr>status = 200, body = Articles sportsArticles\<rparr>))"

definition getBusiness :: "db \<Rightarrow> db \<times> response" where
  "getBusiness d =
     (let sportsArticles = findByCategory ''business'' (articles d)
      in (d, \<lparr>status = 200, body = Articles sportsArticles\<rparr>))"

definition getTechnology :: "db \<Rightarrow> db \<times> response" where
  "getTechnology d =
     (let sportsArticles = findByCategory ''technology'' (articles d)
      in (d, \<lparr>status = 200, body = Articles sportsArticles\<rparr>))"

definition getCategory :: "string \<Rightarrow> db \<Rightarrow> db \<times> response" where
  "getCategory c d =
     (let as = findByCategory c (articles d)
      in (d, \<lparr>status = 200, body = Articles as\<rparr>))"

section \<open>The search contract, as the specification words it\<close>

text \<open>
  The specification describes \<open>search\<close> without the filter object: every provided
  criterion must hold of an article, and a criterion that is not provided asks nothing.
  A criterion counts as provided when the query string carries it with a non-empty value.
  The date criterion names a calendar date, written \<open>YYYY-MM-DD\<close>; it holds of an article
  whose \<open>publishedAt\<close>, read in local server time, falls within that date from
  \<open>00:00:00.000\<close> to \<open>23:59:59.999\<close>, both ends included.
\<close>

fun whenProvided :: "string option \<Rightarrow> (string \<Rightarrow> bool) \<Rightarrow> bool" where
  "whenProvided None P = True"
| "whenProvided (Some s) P = (if s = [] then True else P s)"

definition fieldMatches :: "runtime \<Rightarrow> string \<Rightarrow> string option \<Rightarrow> bool" where
  "fieldMatches rt p field =
     (case (regexTest rt p, field) of (Some test, Some s) \<Rightarrow> test s | _ \<Rightarrow> False)"

text \<open>
  Days since the epoch of a date of the proleptic Gregorian calendar, and the calendar
  date a string of the form \<open>YYYY-MM-DD\<close> names, if it names one.
\<close>

definition daysFromCivil :: "int \<Rightarrow> int \<Rightarrow> int \<Rightarrow> int" where
  "daysFromCivil y m d =
     (let y' = (if m \<le> 2 then y - 1 else y);
          era = y' div 400;
          yoe = y' - era * 400;
          doy = (153 * (if m > 2 then m - 3 else m + 9) + 2) div 5 + d - 1;
          doe = yoe * 365 + yoe div 4 - yoe div 100 + doy
      in era * 146097 + doe - 719468)"

fun decimal :: "int \<Rightarrow> string \<Rightarrow> int option" where
  "decimal acc [] = Some acc"
| "decimal acc (c # cs) =
     (let k = (of_char c :: nat) in
      if 48 \<le> k \<and> k \<le> 57 then decimal (10 * acc + int (k - 48)) cs else None)"

definition daysInMonth :: "int \<Rightarrow> int \<Rightarrow> int" where
  "daysInMonth y m =
     (if m = 2 then
        (if y mod 400 = 0 then 29 else if y mod 100 = 0 then 28
         else if y mod 4 = 0 then 29 else 28)
      else if m = 4 \<or> m = 6 \<or> m = 9 \<or> m = 11 then 30 else 31)"

definition yearMonthDay :: "string \<Rightarrow> (int \<times> int \<times> int) option" where
  "yearMonthDay s =
     (if length s = 10 \<and> s ! 4 = CHR ''-'' \<and> s ! 7 = CHR ''-'' then
        (case (decimal 0 (take 4 s), decimal 0 (take 2 (drop 5 s)), decimal 0 (drop 8 s)) of
           (Some y, Some m, Some d) \<Rightarrow> Some (y, m, d)
         | _ \<Rightarrow> None)
      else None)"

definition calendarDay :: "string \<Rightarrow> int option" where
  "calendarDay s =
     (case yearMonthDay s of
        None \<Rightarrow> None
      | Some (y, m, d) \<Rightarrow>
          if 1 \<le> m \<and> m \<le> 12 \<and> 1 \<le> d \<and> d \<le> daysInMonth y m
          then Some (daysFromCivil y m d) else None)"

definition onDate :: "runtime \<Rightarrow> string \<Rightarrow> int option \<Rightarrow> bool" where
  "onDate rt date field =
     (case (calendarDay date, field) of
        (Some day, Some t) \<Rightarrow>
          day * msPerDay \<le> t + localTZA rt t True
          \<and> t + localTZA rt t True \<le> day * msPerDay + 86399999
      | _ \<Rightarrow> False)"

definition satisfiesAll :: "runtime \<Rightarrow> search_query \<Rightarrow> article \<Rightarrow> bool" where
  "satisfiesAll rt q a =
     (whenProvided (query_title q) (\<lambda>p. fieldMatches rt p (title a))
      \<and> whenProvided (query_country q)
            (\<lambda>p. fieldMatches rt p (case source a of None \<Rightarrow> None | Some src \<Rightarrow> country src))
      \<and> whenProvided (query_category q) (\<lambda>p. fieldMatches rt p (category a))
      \<and> whenProvided (query_date q) (\<lambda>s. onDate rt s (publishedAt a)))"

text \<open>A query whose patterns the store accepts.\<close>

definition patternsAccepted :: "runtime \<Rightarrow> search_query \<Rightarrow> bool" where
  "patternsAccepted rt q =
     (whenProvided (query_title q) (\<lambda>p. regexTest rt p \<noteq> None)
      \<and> whenProvided (query_country q) (\<lambda>p. regexTest rt p \<noteq> None)
      \<and> whenProvided (query_category q) (\<lambda>p. regexTest rt p \<noteq> None))"

section \<open>Example data\<close>

text \<open>
  Concrete inputs on which the model is evaluated below. Instants are written with
  \<open>utc\<close>, the milliseconds since the epoch of a UTC calendar date and time of day.
\<close>

definition utc :: "int \<Rightarrow> int \<Rightarrow> int \<Rightarrow> int \<Rightarrow> int \<Rightarrow> int \<Rightarrow> int \<Rightarrow> int" where
  "utc y m d h mi sec ms =
     daysFromCivil y m d * msPerDay + h * 3600000 + mi * 60000 + sec * 1000 + ms"

text \<open>
  An example runtime. Its date parser knows the date-only form \<open>YYYY-MM-DD\<close>, which
  ECMAScript reads as midnight UTC of that day; a day from 1 to 31 is taken in any month
  and runs over into the next month where the month is shorter. Its matcher knows the
  patterns made of letters, digits and spaces only, which match where they occur as a
  substring, letter case ignored. Its zone has the fixed offset \<open>off\<close> from UTC.
\<close>

definition parseDateOnly :: "string \<Rightarrow> int option" where
  "parseDateOnly s =
     (case yearMonthDay s of
        None \<Rightarrow> None
      | Some (y, m, d) \<Rightarrow>
          if 1 \<le> m \<and> m \<le> 12 \<and> 1 \<le> d \<and> d \<le> 31
          then Some (utc y m d 0 0 0 0) else None)"

definition toLower :: "char \<Rightarrow> char" where
  "toLower c =
     (let k = (of_char c :: nat) in if 65 \<le> k \<and> k \<le> 90 then char_of (k + 32) else c)"

fun containsLiteral :: "string \<Rightarrow> string \<Rightarrow> bool" where
  "containsLiteral p [] = (p = [])"
| "containsLiteral p (c # cs) = (take (length p) (c # cs) = p \<or> containsLiteral p cs)"

definition plainChar :: "char \<Rightarrow> bool" where
  "plainChar c =
     (let k = (of_char c :: nat) in
      (48 \<le> k \<and> k \<le> 57) \<or> (65 \<le> k \<and> k \<le> 90) \<or> (97 \<le> k \<and> k \<le> 122) \<or> k = 32)"

definition exampleRuntime :: "int \<Rightarrow> runtime" where
  "exampleRuntime off =
     \<lparr>regexTest = (\<lambda>p. if list_all plainChar p
                        then Some (\<lambda>s. containsLiteral (map toLower p) (map toLower s))
                        else None),
      dateParse = parseDateOnly,
      localTZA = (\<lambda>t isUTC. off)\<rparr>"

definition exampleArticle ::
  "nat \<Rightarrow> string \<Rightarrow> string \<Rightarrow> int \<Rightarrow> objectId list option \<Rightarrow> article" where
  "exampleArticle i t c p ls =
     \<lparr>title = Some t, description = None, url = None, publishedAt = Some p,
      source = None, urlToImage = None, article_id = ObjectId i, category = Some c,
      likes = ls\<rparr>"

text \<open>
  A store with three articles: one published on 2024-01-15 at 10:00:00 UTC and liked by
  one user, one published on 2024-01-16 at 00:00:01 UTC, and one published in the last
  millisecond of 2024-01-15 UTC whose \<open>likes\<close> field is absent.
\<close>

definition budgetArticle :: article where
  "budgetArticle =
     exampleArticle 1 ''Budget passes'' ''general'' (utc 2024 1 15 10 0 0 0) (Some [ObjectId 2])"

definition cupArticle :: article where
  "cupArticle = exampleArticle 3 ''Cup final'' ''sports'' (utc 2024 1 16 0 0 1 0) (Some [])"

definition lateArticle :: article where
  "lateArticle =
     exampleArticle 4 ''Late edition'' ''general'' (utc 2024 1 15 23 59 59 999) None"

definition exampleDb :: db where
  "exampleDb = \<lparr>articles = [budgetArticle, cupArticle, lateArticle], users = [], nextId = 5\<rparr>"

definition emptyDb :: db where
  "emptyDb = \<lparr>articles = [], users = [], nextId = 0\<rparr>"

definition budgetFeedArticle :: feed_article where
  "budgetFeedArticle =
     \<lparr>title = Some ''Budget passes'', description = Some ''The vote'', url = None,
      publishedAt = Some (utc 2024 1 15 10 0 0 0), source = None, urlToImage = Some []\<rparr>"

text \<open>A feed that fails for \<open>sports\<close> and has one article for \<open>technology\<close>.\<close>

definition exampleFeed :: "string \<Rightarrow> error + feed_article list" where
  "exampleFeed c =
     (if c = ''sports'' then Inl (Error ''Network Error'')
      else if c = ''technology'' then Inr [budgetFeedArticle]
      else Inr [])"

definition noQuery :: search_query where
  "noQuery = \<lparr>query_title = None, query_country = None, query_category = None,
              query_date = None\<rparr>"

definition createdEvent :: "email_address list \<Rightarrow> webhook_body" where
  "createdEvent addrs =
     \<lparr>event_type = Some ''user.created'',
      data = Some \<lparr>data_id = Some ''u1'', first_name = Some ''A'', last_name = Some ''B'',
                  email_addresses = Some addrs\<rparr>\<rparr>"


section \<open>Ingestion: properties\<close>

lemma findOneByTitle_None: "findOneByTitle t as = None \<longleftrightarrow> (\<forall>a \<in> set as. title a \<noteq> t)"
  by (auto simp: findOneByTitle_def find_None_iff)

lemma insertIfAbsent_present:
  "\<exists>a \<in> set (articles d). title a = title fa \<Longrightarrow>
   insertIfAbsent cat fa d = Inr (d, [ConsoleLog (''Article already exists: '' @ render (title fa))])"
  by (cases "findOneByTitle (title fa) (articles d)")
     (auto simp: insertIfAbsent_def findOneByTitle_None)

lemma insertIfAbsent_absent:
  assumes "\<forall>a \<in> set (articles d). title a \<noteq> title fa" "title fa = Some t" "t \<noteq> []"
  shows "\<exists>d'. insertIfAbsent cat fa d = Inr (d', [ConsoleLog (''New article saved: '' @ t)])
     \<and> nextId d' = nextId d + 1 \<and> users d' = users d
     \<and> (\<exists>a. articles d' = articles d @ [a] \<and> title a = Some t \<and> likes a = Some []
          \<and> category a = Some cat)"
proof -
  have "findOneByTitle (title fa) (articles d) = None"
    using assms(1) by (simp add: findOneByTitle_None)
  then show ?thesis using assms
    by (simp add: insertIfAbsent_def saveNewArticle_def)
qed

lemma insertIfAbsent_unique_titles:
  assumes "distinct (map title (articles d))" "insertIfAbsent cat fa d = Inr (d', out)"
  shows "distinct (map title (articles d'))"
proof (cases "findOneByTitle (title fa) (articles d)")
  case None
  then have no: "title fa \<notin> title ` set (articles d)"
    by (auto simp: findOneByTitle_None)
  from None assms(2) obtain a where "articles d' = articles d @ [a]" "title a = title fa"
    by (auto simp: insertIfAbsent_def saveNewArticle_def split: if_splits)
  with no assms(1) show ?thesis by simp
next
  case (Some a)
  with assms show ?thesis by (simp add: insertIfAbsent_def)
qed

lemma requested_append: "requested (xs @ ys) = requested xs @ requested ys"
  by (induction xs rule: requested.induct) simp_all

lemma insertIfAbsent_requested:
  "insertIfAbsent cat fa d = Inr (d', out) \<Longrightarrow> requested out = []"
  by (auto simp: insertIfAbsent_def split: option.splits sum.splits)

lemma insertIfAbsent_titles_mono:
  "insertIfAbsent cat fa d = Inr (d', out) \<Longrightarrow>
   title ` set (articles d) \<subseteq> title ` set (articles d')"
  by (auto simp: insertIfAbsent_def saveNewArticle_def split: option.splits sum.splits if_splits)

lemma insertIfAbsent_title_stored:
  "insertIfAbsent cat fa d = Inr (d', out) \<Longrightarrow> title fa \<in> title ` set (articles d')"
proof (cases "findOneByTitle (title fa) (articles d)")
  case None
  assume "insertIfAbsent cat fa d = Inr (d', out)"
  with None obtain a where "articles d' = articles d @ [a]" "title a = title fa"
    by (auto simp: insertIfAbsent_def saveNewArticle_def split: if_splits)
  then show ?thesis by (metis image_eqI in_set_conv_decomp)
next
  case (Some a)
  assume "insertIfAbsent cat fa d = Inr (d', out)"
  with Some have "d' = d" by (simp add: insertIfAbsent_def)
  moreover from Some have "a \<in> set (articles d) \<and> title a = title fa"
    by (auto simp: findOneByTitle_def find_Some_iff)
  ultimately show ?thesis by (metis image_eqI)
qed

lemma insertIfAbsent_valid_title:
  assumes "title fa \<noteq> None" "title fa \<noteq> Some []"
  shows "\<exists>d' out. insertIfAbsent cat fa d = Inr (d', out)"
proof (cases "findOneByTitle (title fa) (articles d)")
  case None
  then have "\<forall>a \<in> set (articles d). title a \<noteq> title fa"
    by (simp add: findOneByTitle_None)
  with None assms show ?thesis
    by (simp add: insertIfAbsent_def saveNewArticle_def)
next
  case (Some a)
  then show ?thesis by (simp add: insertIfAbsent_def)
qed

lemma saveArticles_requested:
  "saveArticles cat fas d = (r, d', out) \<Longrightarrow> requested out = []"
proof (induction fas arbitrary: d r d' out)
  case Nil
  then show ?case by simp
next
  case (Cons fa fas)
  show ?case
  proof (cases "insertIfAbsent cat fa d")
    case (Inl e)
    with Cons.prems show ?thesis by simp
  next
    case (Inr p)
    obtain d1 out1 where p: "p = (d1, out1)" by (cases p)
    obtain r2 d2 out2 where s: "saveArticles cat fas d1 = (r2, d2, out2)"
      by (cases "saveArticles cat fas d1")
    from Cons.prems Inr p s have "out = out1 @ out2" by simp
    moreover have "requested out1 = []" using Inr p by (simp add: insertIfAbsent_requested)
    moreover have "requested out2 = []" using s by (rule Cons.IH)
    ultimately show ?thesis by (simp add: requested_append)
  qed
qed

lemma saveArticles_titles_mono:
  "saveArticles cat fas d = (r, d', out) \<Longrightarrow>
   title ` set (articles d) \<subseteq> title ` set (articles d')"
proof (induction fas arbitrary: d r d' out)
  case Nil
  then show ?case by simp
next
  case (Cons fa fas)
  show ?case
  proof (cases "insertIfAbsent cat fa d")
    case (Inl e)
    with Cons.prems show ?thesis by simp
  next
    case (Inr p)
    obtain d1 out1 where p: "p = (d1, out1)" by (cases p)
    obtain r2 d2 out2 where s: "saveArticles cat fas d1 = (r2, d2, out2)"
      by (cases "saveArticles cat fas d1")
    from Cons.prems Inr p s have "d' = d2" by simp
    moreover have "title ` set (articles d) \<subseteq> title ` set (articles d1)"
      using Inr p by (simp add: insertIfAbsent_titles_mono)
    moreover have "title ` set (articles d1) \<subseteq> title ` set (articles d2)"
      using s by (rule Cons.IH)
    ultimately show ?thesis by blast
  qed
qed

lemma saveArticles_valid_titles:
  assumes "\<forall>fa \<in> set fas. title fa \<noteq> None \<and> title fa \<noteq> Some []"
  shows "\<exists>d' out. saveArticles cat fas d = (None, d', out)
           \<and> (\<forall>fa \<in> set fas. title fa \<in> title ` set (articles d'))"
  using assms
proof (induction fas arbitrary: d)
  case Nil
  then show ?case by simp
next
  case (Cons fa fas)
  from Cons.prems have "title fa \<noteq> None" "title fa \<noteq> Some []" by simp_all
  from insertIfAbsent_valid_title [OF this]
  obtain d1 out1 where i: "insertIfAbsent cat fa d = Inr (d1, out1)" by blast
  from Cons.prems have "\<forall>fa \<in> set fas. title fa \<noteq> None \<and> title fa \<noteq> Some []" by simp
  from Cons.IH [OF this]
  obtain d2 out2 where s: "saveArticles cat fas d1 = (None, d2, out2)"
    and t: "\<forall>fa \<in> set fas. title fa \<in> title ` set (articles d2)" by blast
  have "title fa \<in> title ` set (articles d1)"
    using i by (rule insertIfAbsent_title_stored)
  moreover have "title ` set (articles d1) \<subseteq> title ` set (articles d2)"
    using s by (rule saveArticles_titles_mono)
  ultimately have "title fa \<in> title ` set (articles d2)" by blast
  with t i s show ?case by simp
qed

lemma fetchAndSaveArticles_requested:
  "fetchAndSaveArticles feed cat d = (r, d', out) \<Longrightarrow> requested out = [cat]"
  by (auto simp: fetchAndSaveArticles_def requested_append
           split: sum.splits prod.splits option.splits dest: saveArticles_requested)

lemma fetchAndSaveArticles_titles_mono:
  "fetchAndSaveArticles feed cat d = (r, d', out) \<Longrightarrow>
   title ` set (articles d) \<subseteq> title ` set (articles d')"
  by (auto simp: fetchAndSaveArticles_def
           split: sum.splits prod.splits option.splits dest!: saveArticles_titles_mono)

lemma fetchAndSaveArticles_failure:
  "feed cat = Inl e \<Longrightarrow>
   fetchAndSaveArticles feed cat d =
     (Inl (Error (''An error occurred while fetching '' @ cat @ '' headlines.'')), d,
      [HttpGet cat, ConsoleError (''Error fetching '' @ cat @ '' headlines: '' @ message e)])"
  by (simp add: fetchAndSaveArticles_def)

lemma fetchAndSaveArticles_success:
  assumes "feed cat = Inr arts" "\<forall>fa \<in> set arts. title fa \<noteq> None \<and> title fa \<noteq> Some []"
  shows "\<exists>d' out. fetchAndSaveArticles feed cat d =
           (Inr (''Headlines for category '' @ cat @
                     '' fetched and saved to the database (if new).''), d', out)
           \<and> (\<forall>fa \<in> set arts. title fa \<in> title ` set (articles d'))"
proof -
  from saveArticles_valid_titles [OF assms(2), of cat d]
  obtain d' out where "saveArticles cat arts d = (None, d', out)"
    "\<forall>fa \<in> set arts. title fa \<in> title ` set (articles d')" by blast
  with assms(1) show ?thesis by (simp add: fetchAndSaveArticles_def)
qed

lemma fetchCategories_requested:
  "fetchCategories feed cs d = (d', out) \<Longrightarrow> requested out = cs"
proof (induction cs arbitrary: d d' out)
  case Nil
  then show ?case by simp
next
  case (Cons c cs)
  obtain r d1 out1 where f: "fetchAndSaveArticles feed c d = (r, d1, out1)"
    by (cases "fetchAndSaveArticles feed c d")
  obtain d2 out2 where g: "fetchCategories feed cs d1 = (d2, out2)"
    by (cases "fetchCategories feed cs d1")
  have "requested out1 = [c]" using f by (rule fetchAndSaveArticles_requested)
  moreover have "requested out2 = cs" using g by (rule Cons.IH)
  moreover obtain l where "out = out1 @ [l] @ out2" "requested [l] = []"
    using Cons.prems f g by (cases r) auto
  moreover have "requested (out1 @ [l] @ out2) = requested out1 @ requested [l] @ requested out2"
    by (simp only: requested_append)
  ultimately show ?case by simp
qed

lemma fetchCategories_titles_mono:
  "fetchCategories feed cs d = (d', out) \<Longrightarrow>
   title ` set (articles d) \<subseteq> title ` set (articles d')"
proof (induction cs arbitrary: d d' out)
  case Nil
  then show ?case by simp
next
  case (Cons c cs)
  obtain r d1 out1 where f: "fetchAndSaveArticles feed c d = (r, d1, out1)"
    by (cases "fetchAndSaveArticles feed c d")
  obtain d2 out2 where g: "fetchCategories feed cs d1 = (d2, out2)"
    by (cases "fetchCategories feed cs d1")
  have "title ` set (articles d) \<subseteq> title ` set (articles d1)"
    using f by (rule fetchAndSaveArticles_titles_mono)
  moreover have "title ` set (articles d1) \<subseteq> title ` set (articles d2)"
    using g by (rule Cons.IH)
  moreover have "d' = d2" using Cons.prems f g by simp
  ultimately show ?case by blast
qed

lemma fetchCategories_failure_logged:
  "fetchCategories feed cs d = (d', out) \<Longrightarrow> c \<in> set cs \<Longrightarrow> feed c = Inl e \<Longrightarrow>
   ConsoleError (''Error fetching '' @ c @ '' articles: An error occurred while fetching ''
                 @ c @ '' headlines.'') \<in> set out"
proof (induction cs arbitrary: d d' out)
  case Nil
  then show ?case by simp
next
  case (Cons c' cs)
  obtain r d1 out1 where f: "fetchAndSaveArticles feed c' d = (r, d1, out1)"
    by (cases "fetchAndSaveArticles feed c' d")
  obtain d2 out2 where g: "fetchCategories feed cs d1 = (d2, out2)"
    by (cases "fetchCategories feed cs d1")
  show ?case
  proof (cases "c = c'")
    case True
    with Cons.prems(3) f
    have "r = Inl (Error (''An error occurred while fetching '' @ c @ '' headlines.''))"
      by (simp add: fetchAndSaveArticles_failure)
    with Cons.prems(1) f g True show ?thesis by auto
  next
    case False
    with Cons.prems(2) have "c \<in> set cs" by simp
    from Cons.IH [OF g this Cons.prems(3)] Cons.prems(1) f g show ?thesis by auto
  qed
qed

lemma fetchCategories_success_stored:
  "fetchCategories feed cs d = (d', out) \<Longrightarrow> c \<in> set cs \<Longrightarrow> feed c = Inr arts \<Longrightarrow>
   \<forall>fa \<in> set arts. title fa \<noteq> None \<and> title fa \<noteq> Some [] \<Longrightarrow>
   \<forall>fa \<in> set arts. title fa \<in> title ` set (articles d')"
proof (induction cs arbitrary: d d' out)
  case Nil
  then show ?case by simp
next
  case (Cons c' cs)
  obtain r d1 out1 where f: "fetchAndSaveArticles feed c' d = (r, d1, out1)"
    by (cases "fetchAndSaveArticles feed c' d")
  obtain d2 out2 where g: "fetchCategories feed cs d1 = (d2, out2)"
    by (cases "fetchCategories feed cs d1")
  have d': "d' = d2" using Cons.prems(1) f g by simp
  show ?case
  proof (cases "c = c'")
    case True
    from fetchAndSaveArticles_success [where feed = feed and cat = c and arts = arts and d = d]
      Cons.prems(3,4) f True
    have "\<forall>fa \<in> set arts. title fa \<in> title ` set (articles d1)" by auto
    moreover have "title ` set (articles d1) \<subseteq> title ` set (articles d2)"
      using g by (rule fetchCategories_titles_mono)
    ultimately show ?thesis using d' by blast
  next
    case False
    with Cons.prems(2) have "c \<in> set cs" by simp
    from Cons.IH [OF g this Cons.prems(3,4)] d' show ?thesis by simp
  qed
qed

text \<open>
  Claim C1. \<open>insertIfAbsent\<close> deduplicates on the title. When a stored article already
  has the title of the incoming article, the attempt changes nothing in the store: the
  existing record is not touched. And when at most one stored article has the title
  \<open>t\<close> (the unique index on \<open>title\<close>) and \<open>t\<close> is a non-empty string, two successive
  calls with articles of title \<open>t\<close> both succeed, the second changes nothing, and
  exactly one stored record has the title \<open>t\<close> afterwards.
\<close>

theorem insertIfAbsent_dedup_on_title:
  "((\<exists>a \<in> set (articles d). title a = title fa) \<longrightarrow>
      insertIfAbsent cat fa d =
        Inr (d, [ConsoleLog (''Article already exists: '' @ render (title fa))]))
   \<and> (title fa = Some t \<and> t \<noteq> [] \<and> title fb = Some t
        \<and> length (filter (\<lambda>a. title a = Some t) (articles d)) \<le> 1 \<longrightarrow>
      (\<exists>d1 out1 out2.
          insertIfAbsent cat fa d = Inr (d1, out1)
        \<and> insertIfAbsent cat' fb d1 = Inr (d1, out2)
        \<and> length (filter (\<lambda>a. title a = Some t) (articles d1)) = 1))"
proof (intro conjI impI)
  assume "\<exists>a \<in> set (articles d). title a = title fa"
  then show "insertIfAbsent cat fa d =
        Inr (d, [ConsoleLog (''Article already exists: '' @ render (title fa))])"
    by (rule insertIfAbsent_present)
next
  assume h: "title fa = Some t \<and> t \<noteq> [] \<and> title fb = Some t
        \<and> length (filter (\<lambda>a. title a = Some t) (articles d)) \<le> 1"
  show "\<exists>d1 out1 out2.
          insertIfAbsent cat fa d = Inr (d1, out1)
        \<and> insertIfAbsent cat' fb d1 = Inr (d1, out2)
        \<and> length (filter (\<lambda>a. title a = Some t) (articles d1)) = 1"
  proof (cases "\<exists>a \<in> set (articles d). title a = Some t")
    case True
    then have 1: "insertIfAbsent cat fa d = Inr (d, [ConsoleLog (''Article already exists: '' @ render (title fa))])"
      and 2: "insertIfAbsent cat' fb d = Inr (d, [ConsoleLog (''Article already exists: '' @ render (title fb))])"
      using h by (simp_all add: insertIfAbsent_present)
    from True have "filter (\<lambda>a. title a = Some t) (articles d) \<noteq> []"
      by (simp add: filter_empty_conv)
    then have "length (filter (\<lambda>a. title a = Some t) (articles d)) = 1"
      using h by (cases "filter (\<lambda>a. title a = Some t) (articles d)") auto
    with 1 2 show ?thesis by blast
  next
    case False
    then have no: "\<forall>a \<in> set (articles d). title a \<noteq> title fa" using h by simp
    from insertIfAbsent_absent [OF no, of t cat] h
    obtain d' a where d': "insertIfAbsent cat fa d = Inr (d', [ConsoleLog (''New article saved: '' @ t)])"
      and a: "articles d' = articles d @ [a]" "title a = Some t"
      by auto
    have "\<exists>x \<in> set (articles d'). title x = title fb" using a h by auto
    then have 2: "insertIfAbsent cat' fb d' = Inr (d', [ConsoleLog (''Article already exists: '' @ render (title fb))])"
      by (rule insertIfAbsent_present)
    have "filter (\<lambda>a. title a = Some t) (articles d) = []"
      using False by (simp add: filter_empty_conv)
    then have "length (filter (\<lambda>a. title a = Some t) (articles d')) = 1"
      using a by simp
    with d' 2 show ?thesis by blast
  qed
qed

theorem insertIfAbsent_dedup_on_title_witness:
  "insertIfAbsent ''sports'' budgetFeedArticle exampleDb
     = Inr (exampleDb, [ConsoleLog ''Article already exists: Budget passes''])
   \<and> (\<exists>d1 out1 out2.
         insertIfAbsent ''general'' budgetFeedArticle emptyDb = Inr (d1, out1)
       \<and> insertIfAbsent ''sports'' budgetFeedArticle d1 = Inr (d1, out2)
       \<and> length (filter (\<lambda>a. title a = Some ''Budget passes'') (articles d1)) = 1)"
proof -
  have t: "title budgetFeedArticle = Some ''Budget passes''"
    by (simp add: budgetFeedArticle_def)
  have "\<exists>a \<in> set (articles exampleDb). title a = title budgetFeedArticle"
    by (simp add: exampleDb_def budgetArticle_def exampleArticle_def t)
  with insertIfAbsent_dedup_on_title
         [of exampleDb budgetFeedArticle "''sports''" "''Budget passes''" budgetFeedArticle
             "''sports''"]
  have 1: "insertIfAbsent ''sports'' budgetFeedArticle exampleDb
     = Inr (exampleDb, [ConsoleLog ''Article already exists: Budget passes''])"
    by (simp add: t)
  have "length (filter (\<lambda>a. title a = Some ''Budget passes'') (articles emptyDb)) \<le> 1"
    by (simp add: emptyDb_def)
  with insertIfAbsent_dedup_on_title
         [of emptyDb budgetFeedArticle "''general''" "''Budget passes''" budgetFeedArticle
             "''sports''"]
  have 2: "\<exists>d1 out1 out2.
         insertIfAbsent ''general'' budgetFeedArticle emptyDb = Inr (d1, out1)
       \<and> insertIfAbsent ''sports'' budgetFeedArticle d1 = Inr (d1, out2)
       \<and> length (filter (\<lambda>a. title a = Some ''Budget passes'') (articles d1)) = 1"
    by (simp add: t)
  from 1 2 show ?thesis by simp
qed

text \<open>
  An article without a title, or with the empty title, never reaches the store: the
  lookup finds nothing and the save fails the schema's \<open>required\<close> check.
\<close>

lemma insertIfAbsent_title_required:
  assumes "title fa = None \<or> title fa = Some []"
    and "\<forall>a \<in> set (articles d). title a \<noteq> title fa"
  shows "insertIfAbsent cat fa d =
           Inl (ValidationError ''Article validation failed: title: Path title is required.'')"
proof -
  have "findOneByTitle (title fa) (articles d) = None"
    using assms(2) by (simp add: findOneByTitle_None)
  with assms(1) show ?thesis
    by (auto simp: insertIfAbsent_def saveNewArticle_def)
qed

text \<open>
  Claim C7. Ingestion isolates failures per category. Whatever the feed does,
  \<open>fetchAllCategories\<close> returns, and it has requested every category of the fixed list
  once, in the list's order. For every category whose fetch fails, the error it caught
  is on the console and names the category. For every category whose fetch succeeds with
  articles that all have a non-empty title, each of these titles is stored afterwards,
  whichever other categories failed.
\<close>

theorem fetchAllCategories_isolates_failures:
  "fetchAllCategories feed d = (d', out) \<Longrightarrow>
     requested out = categories
   \<and> (\<forall>c \<in> set categories. \<forall>e. feed c = Inl e \<longrightarrow>
        ConsoleError (''Error fetching '' @ c @ '' articles: An error occurred while fetching ''
                      @ c @ '' headlines.'') \<in> set out)
   \<and> (\<forall>c \<in> set categories. \<forall>arts. feed c = Inr arts
         \<and> (\<forall>fa \<in> set arts. title fa \<noteq> None \<and> title fa \<noteq> Some []) \<longrightarrow>
        (\<forall>fa \<in> set arts. \<exists>a \<in> set (articles d'). title a = title fa))"
proof (intro conjI ballI allI impI)
  assume h: "fetchAllCategories feed d = (d', out)"
  then show "requested out = categories"
    by (simp add: fetchAllCategories_def fetchCategories_requested)
next
  fix c e
  assume "fetchAllCategories feed d = (d', out)" "c \<in> set categories" "feed c = Inl e"
  then show "ConsoleError (''Error fetching '' @ c @ '' articles: An error occurred while fetching ''
                      @ c @ '' headlines.'') \<in> set out"
    unfolding fetchAllCategories_def by (rule fetchCategories_failure_logged)
next
  fix c arts fa
  assume h: "fetchAllCategories feed d = (d', out)" "c \<in> set categories"
    and "feed c = Inr arts \<and> (\<forall>fa \<in> set arts. title fa \<noteq> None \<and> title fa \<noteq> Some [])"
    and fa: "fa \<in> set arts"
  then have "feed c = Inr arts" "\<forall>fa \<in> set arts. title fa \<noteq> None \<and> title fa \<noteq> Some []"
    by simp_all
  from fetchCategories_success_stored [OF h(1) [unfolded fetchAllCategories_def] h(2) this] fa
  have "title fa \<in> title ` set (articles d')" by blast
  then show "\<exists>a \<in> set (articles d'). title a = title fa" by auto
qed

theorem fetchAllCategories_isolates_failures_witness:
  "requested (snd (fetchAllCategories exampleFeed emptyDb))
     = [''general'', ''sports'', ''technology'', ''health'', ''business'']
   \<and> exampleFeed ''sports'' = Inl (Error ''Network Error'')
   \<and> ConsoleError
        ''Error fetching sports articles: An error occurred while fetching sports headlines.''
       \<in> set (snd (fetchAllCategories exampleFeed emptyDb))
   \<and> (\<exists>a \<in> set (articles (fst (fetchAllCategories exampleFeed emptyDb))).
         title a = Some ''Budget passes'')"
proof -
  let ?r = "fetchAllCategories exampleFeed emptyDb"
  have r: "?r = (fst ?r, snd ?r)" by simp
  note th = fetchAllCategories_isolates_failures [OF r]
  have s: "exampleFeed ''sports'' = Inl (Error ''Network Error'')"
    by (simp add: exampleFeed_def)
  have tch: "exampleFeed ''technology'' = Inr [budgetFeedArticle]"
    by (simp add: exampleFeed_def)
  have ok: "\<forall>fa \<in> set [budgetFeedArticle]. title fa \<noteq> None \<and> title fa \<noteq> Some []"
    by (simp add: budgetFeedArticle_def)
  have c1: "''sports'' \<in> set categories" and c2: "''technology'' \<in> set categories"
    by (simp_all add: categories_def)
  from th have "requested (snd ?r) = categories" by blast
  then have A: "requested (snd ?r)
                  = [''general'', ''sports'', ''technology'', ''health'', ''business'']"
    by (simp add: categories_def)
  from th c1 s have B: "ConsoleError (''Error fetching '' @ ''sports'' @
       '' articles: An error occurred while fetching '' @ ''sports'' @ '' headlines.'')
       \<in> set (snd ?r)" by blast
  from th c2 tch ok
  have "\<forall>fa \<in> set [budgetFeedArticle]. \<exists>a \<in> set (articles (fst ?r)). title a = title fa"
    by blast
  then have C: "\<exists>a \<in> set (articles (fst ?r)). title a = Some ''Budget passes''"
    by (simp add: budgetFeedArticle_def)
  from A s B C show ?thesis by simp
qed

section \<open>Search: properties\<close>

lemma whenProvided_truthy:
  "whenProvided x P = (case truthy x of None \<Rightarrow> True | Some s \<Rightarrow> P s)"
  by (cases x) simp_all

lemma regexHolds_spec:
  "regexHolds rt (truthy x) field = whenProvided x (\<lambda>p. fieldMatches rt p field)"
  by (cases x; cases field)
     (auto simp: regexHolds_def fieldMatches_def split: option.splits)

lemma patternOk_spec:
  "patternOk rt (truthy x) = whenProvided x (\<lambda>p. regexTest rt p \<noteq> None)"
  by (cases x) (auto simp: patternOk_def)

lemma buildCriteria_without_date:
  assumes "truthy (query_date q) = None"
  shows "buildCriteria rt q =
           \<lparr>criteria_title = truthy (query_title q),
            criteria_country = truthy (query_country q),
            criteria_category = truthy (query_category q),
            criteria_publishedAt = None\<rparr>"
  using assms by (simp add: buildCriteria_def)

lemma matchesCriteria_without_date:
  assumes "truthy (query_date q) = None"
  shows "matchesCriteria rt (buildCriteria rt q) a = satisfiesAll rt q a"
proof -
  have "whenProvided (query_date q) (\<lambda>s. onDate rt s (publishedAt a))"
    using assms by (simp add: whenProvided_truthy)
  then show ?thesis
    by (simp add: buildCriteria_without_date [OF assms] matchesCriteria_def satisfiesAll_def
          regexHolds_spec rangeHolds_def sourceCountry_def)
qed

lemma findArticles_without_date:
  assumes "patternsAccepted rt q" "truthy (query_date q) = None"
  shows "findArticles rt (buildCriteria rt q) as
           = Inr (map loaded (filter (satisfiesAll rt q) as))"
proof -
  have "patternOk rt (truthy (query_title q))"
    "patternOk rt (truthy (query_country q))"
    "patternOk rt (truthy (query_category q))"
    using assms(1) by (simp_all add: patternOk_spec patternsAccepted_def)
  moreover have "matchesCriteria rt (buildCriteria rt q) = satisfiesAll rt q"
    using assms(2) by (simp add: fun_eq_iff matchesCriteria_without_date)
  ultimately show ?thesis
    by (simp add: findArticles_def buildCriteria_without_date [OF assms(2)] rangeOk_def)
qed

text \<open>
  Claim C2. \<open>search\<close> is claimed to return exactly the stored articles of which every
  provided criterion holds, and to answer not-found if and only if no stored article
  matches. Evaluated with the date criterion \<open>date=2024-01-15\<close> on a server whose local
  time is UTC: two articles of the example store satisfy the criterion, the one of
  \<open>10:00:00\<close> and the one of \<open>23:59:59.999\<close>, but \<open>search\<close> returns only the first; and on a
  store that holds only the article of \<open>23:59:59.999\<close> the matching set is not empty, yet
  the answer is not-found (404).
\<close>

theorem search_date_misses_matching_article:
  "filter (satisfiesAll (exampleRuntime 0) (noQuery\<lparr>query_date := Some ''2024-01-15''\<rparr>))
     (articles exampleDb) = [budgetArticle, lateArticle]
   \<and> search (exampleRuntime 0) (noQuery\<lparr>query_date := Some ''2024-01-15''\<rparr>) exampleDb
       = (exampleDb, \<lparr>status = 200, body = Articles [budgetArticle]\<rparr>)
   \<and> filter (satisfiesAll (exampleRuntime 0) (noQuery\<lparr>query_date := Some ''2024-01-15''\<rparr>))
       (articles (exampleDb\<lparr>articles := [lateArticle]\<rparr>)) = [lateArticle]
   \<and> search (exampleRuntime 0) (noQuery\<lparr>query_date := Some ''2024-01-15''\<rparr>)
         (exampleDb\<lparr>articles := [lateArticle]\<rparr>)
       = (exampleDb\<lparr>articles := [lateArticle]\<rparr>,
          \<lparr>status = 404, body = Message ''No articles found matching your query''\<rparr>)"
  by code_simp

text \<open>
  Without a date criterion the handler does what claim C2 says: for a query whose
  patterns the store accepts, \<open>search\<close> returns exactly the stored articles (as loaded, in
  stored order) of which every provided criterion holds; it answers 404 if and only if
  there is none; and with no criterion at all every stored article matches. The store is
  left as it was.
\<close>

lemma search_conjunction_without_date:
  assumes "patternsAccepted rt q" "truthy (query_date q) = None"
  shows "search rt q d =
           (d, if filter (satisfiesAll rt q) (articles d) = []
               then \<lparr>status = 404, body = Message ''No articles found matching your query''\<rparr>
               else \<lparr>status = 200,
                     body = Articles (map loaded (filter (satisfiesAll rt q) (articles d)))\<rparr>)"
    and "status (snd (search rt q d)) = 404 \<longleftrightarrow> filter (satisfiesAll rt q) (articles d) = []"
    and "truthy (query_title q) = None \<and> truthy (query_country q) = None
         \<and> truthy (query_category q) = None
         \<Longrightarrow> filter (satisfiesAll rt q) (articles d) = articles d"
proof -
  show s: "search rt q d =
           (d, if filter (satisfiesAll rt q) (articles d) = []
               then \<lparr>status = 404, body = Message ''No articles found matching your query''\<rparr>
               else \<lparr>status = 200,
                     body = Articles (map loaded (filter (satisfiesAll rt q) (articles d)))\<rparr>)"
    using findArticles_without_date [OF assms, of "articles d"] by (simp add: search_def)
  show "status (snd (search rt q d)) = 404 \<longleftrightarrow> filter (satisfiesAll rt q) (articles d) = []"
    by (simp add: s)
  assume "truthy (query_title q) = None \<and> truthy (query_country q) = None
         \<and> truthy (query_category q) = None"
  with assms(2) have "\<And>a. satisfiesAll rt q a"
    by (simp add: satisfiesAll_def whenProvided_truthy)
  then show "filter (satisfiesAll rt q) (articles d) = articles d" by simp
qed

text \<open>A date the runtime cannot parse is answered with 500, whatever is stored.\<close>

lemma search_invalid_date:
  assumes "query_date q = Some s" "s \<noteq> []" "dateParse rt s = None"
  shows "search rt q d =
           (d, \<lparr>status = 500, body = Message ''An error occurred while searching for articles''\<rparr>)"
  using assms
  by (simp add: search_def findArticles_def buildCriteria_def rangeOk_def setHours_def)

text \<open>
  The date filter in a zone with a fixed offset from UTC: with a date that parses to
  \<open>t0\<close>, the filter holds of an article exactly when its \<open>publishedAt\<close> lies in the local
  day of \<open>t0\<close> from midnight, inclusive, to \<open>23:59:59.999\<close>, exclusive.
\<close>

lemma setHours_fixed_offset_start:
  "setHours (\<lambda>t isUTC. off) 0 0 0 0 (Some t) = timeClip (t - (t + off) mod msPerDay)"
proof -
  have "((t + off) div msPerDay) * msPerDay = (t + off) - (t + off) mod msPerDay"
    by (simp add: minus_mod_eq_div_mult)
  then show ?thesis by (simp add: setHours_def)
qed

lemma setHours_fixed_offset_end:
  "setHours (\<lambda>t isUTC. off) 23 59 59 999 (Some (t - (t + off) mod msPerDay))
     = timeClip (t - (t + off) mod msPerDay + 86399999)"
proof -
  let ?s = "t - (t + off) mod msPerDay"
  have "((t + off) div msPerDay) * msPerDay = (t + off) - (t + off) mod msPerDay"
    by (simp add: minus_mod_eq_div_mult)
  then have "?s + off = ((t + off) div msPerDay) * msPerDay" by simp
  then have F: "(?s + off) div msPerDay * msPerDay = ?s + off"
    by (simp add: msPerDay_def)
  have "setHours (\<lambda>t isUTC. off) 23 59 59 999 (Some ?s)
          = timeClip ((?s + off) div msPerDay * msPerDay + 86399999 - off)"
    by (simp add: setHours_def)
  also have "(?s + off) div msPerDay * msPerDay + 86399999 - off = ?s + 86399999"
    unfolding F by simp
  finally show ?thesis .
qed

lemma search_date_filter:
  assumes "localTZA rt = (\<lambda>t isUTC. off)"
    and "query_date q = Some s" "s \<noteq> []" "dateParse rt s = Some t0"
    and "timeClip (t0 - (t0 + off) mod msPerDay) \<noteq> None"
    and "timeClip (t0 - (t0 + off) mod msPerDay + 86399999) \<noteq> None"
  shows "rangeHolds (criteria_publishedAt (buildCriteria rt q)) (publishedAt a)
         \<longleftrightarrow> (\<exists>t. publishedAt a = Some t
                 \<and> t0 - (t0 + off) mod msPerDay \<le> t
                 \<and> t < t0 - (t0 + off) mod msPerDay + 86399999)"
proof -
  let ?s = "t0 - (t0 + off) mod msPerDay"
  from assms(5) have 1: "timeClip ?s = Some ?s" by (simp add: timeClip_def split: if_splits)
  from assms(6) have 2: "timeClip (?s + 86399999) = Some (?s + 86399999)"
    by (simp add: timeClip_def split: if_splits)
  have "criteria_publishedAt (buildCriteria rt q) = Some (Some ?s, Some (?s + 86399999))"
    using assms(1-4) 1 2
    by (simp add: buildCriteria_def Let_def setHours_fixed_offset_start
          setHours_fixed_offset_end)
  then show ?thesis
    by (cases "publishedAt a") (simp_all add: rangeHolds_def)
qed

text \<open>
  Claim C3. The date filter of \<open>search\<close> is claimed to select the articles whose
  \<open>publishedAt\<close> lies in the closed range from \<open>00:00:00.000\<close> to \<open>23:59:59.999\<close> of the
  day, with \<open>date=2024-01-15\<close> matching \<open>2024-01-15T10:00:00Z\<close> and not
  \<open>2024-01-16T00:00:01Z\<close>. Evaluated on a server whose local time is UTC, the search for
  \<open>date=2024-01-15\<close> over the example store does return the article of 10:00:00 and does
  leave out the one of the next day; but it also leaves out the article published at
  \<open>2024-01-15T23:59:59.999Z\<close>, the last instant of the claimed range, because the handler
  compares the upper bound with \<open>$lt\<close>.
\<close>

theorem search_date_excludes_last_millisecond:
  "search (exampleRuntime 0) (noQuery\<lparr>query_date := Some ''2024-01-15''\<rparr>) exampleDb
     = (exampleDb, \<lparr>status = 200, body = Articles [budgetArticle]\<rparr>)
   \<and> lateArticle \<in> set (articles exampleDb)
   \<and> publishedAt lateArticle = Some (utc 2024 1 15 23 59 59 999)
   \<and> dateParse (exampleRuntime 0) ''2024-01-15'' = Some (utc 2024 1 15 0 0 0 0)"
  by code_simp

text \<open>
  The same search on a server five hours west of UTC: the date-only string is parsed
  as midnight UTC, which is the evening of 14 January there, so the filter covers the
  local 14 January and the article of \<open>2024-01-15T10:00:00Z\<close> is not found.
\<close>

lemma search_date_west_of_utc:
  "search (exampleRuntime (- 18000000)) (noQuery\<lparr>query_date := Some ''2024-01-15''\<rparr>) exampleDb
     = (exampleDb, \<lparr>status = 404, body = Message ''No articles found matching your query''\<rparr>)"
  by code_simp

section \<open>Likes: properties\<close>

lemma likesOf_loaded: "likesOf (loaded a) = likesOf a"
  by (simp add: loaded_def likesOf_def)


lemma loaded_likes_update: "loaded (a\<lparr>likes := Some ls\<rparr>) = a\<lparr>likes := Some ls\<rparr>"
  by (simp add: loaded_def likesOf_def)

lemma article_id_loaded: "article_id (loaded a) = article_id a"
  by (simp add: loaded_def)


lemma find_saveArticle:
  "find (\<lambda>x. article_id x = i) as = Some a \<Longrightarrow> article_id a' = i \<Longrightarrow>
   find (\<lambda>x. article_id x = i) (saveArticle a' as) = Some a'"
  by (induction as) (auto split: if_splits)

lemma findById_Some:
  assumes "findById articleId as = Inr (Some a)"
  obtains i a0 where "castObjectId articleId = Some i"
    "find (\<lambda>x. article_id x = i) as = Some a0" "a = loaded a0" "article_id a0 = i"
proof -
  from assms obtain i where i: "castObjectId articleId = Some i"
    and f: "map_option loaded (find (\<lambda>x. article_id x = i) as) = Some a"
    by (auto simp: findById_def split: option.splits)
  from f obtain a0 where a0: "find (\<lambda>x. article_id x = i) as = Some a0" "a = loaded a0"
    by auto
  from a0(1) have "article_id a0 = i" by (auto simp: find_Some_iff)
  with i a0 that show ?thesis by blast
qed


lemma findById_saveArticle:
  assumes "findById articleId as = Inr (Some a)" "article_id a' = article_id a"
  shows "findById articleId (saveArticle a' as) = Inr (Some (loaded a'))"
proof -
  from assms(1) obtain i a0 where i: "castObjectId articleId = Some i"
    and f: "find (\<lambda>x. article_id x = i) as = Some a0"
    and a: "a = loaded a0" "article_id a0 = i"
    by (rule findById_Some)
  from a assms(2) have "article_id a' = i" by (simp add: article_id_loaded)
  from find_saveArticle [OF f this] i show ?thesis by (simp add: findById_def)
qed




text \<open>
  When the handler's test finds the user id in the likes of an existing article, \<open>like\<close>
  changes nothing and answers with the current number of likes.
\<close>

lemma like_included_unchanged:
  assumes "findById articleId (articles d) = Inr (Some a)"
    and "likes_includes (likesOf a) userId"
  shows "like articleId userId d = (d, \<lparr>status = 200, body = LikesCount (length (likesOf a))\<rparr>)"
  using assms by (simp add: like_def)

text \<open>
  Repeating a \<open>like\<close> gives the same store and the same answer as the first call,
  for every user id that is either no object id at all or written the way an object id
  prints (24 lower-case hexadecimal digits).
\<close>

lemma like_twice:
  assumes "\<forall>u. castObjectId userId = Some u \<longrightarrow> toString u = userId"
  shows "like articleId userId (fst (like articleId userId d)) = like articleId userId d"
proof (cases "findById articleId (articles d)")
  case (Inl e)
  then show ?thesis by (simp add: like_def)
next
  case (Inr r)
  show ?thesis
  proof (cases r)
    case None
    with Inr show ?thesis by (simp add: like_def)
  next
    case (Some a)
    note a = Inr [unfolded Some]
    show ?thesis
    proof (cases "likes_includes (likesOf a) userId")
      case True
      with a show ?thesis by (simp add: like_def)
    next
      case False
      show ?thesis
      proof (cases "castObjectId userId")
        case None
        with a False show ?thesis by (simp add: like_def)
      next
        case (Some u)
        with assms have u: "toString u = userId" by simp
        let ?a' = "a\<lparr>likes := Some (likesOf a @ [u])\<rparr>"
        let ?d' = "d\<lparr>articles := saveArticle ?a' (articles d)\<rparr>"
        have 1: "like articleId userId d =
                   (?d', \<lparr>status = 200, body = LikesCount (length (likesOf a @ [u]))\<rparr>)"
          using a False Some by (simp add: like_def)
        have "findById articleId (articles ?d') = Inr (Some ?a')"
          using findById_saveArticle [OF a, of ?a'] by (simp add: loaded_likes_update)
        moreover have "likesOf ?a' = likesOf a @ [u]" by (simp add: likesOf_def)
        moreover have "likes_includes (likesOf a @ [u]) userId"
          using u by (simp add: likes_includes_def)
        ultimately have "like articleId userId ?d' =
                   (?d', \<lparr>status = 200, body = LikesCount (length (likesOf a @ [u]))\<rparr>)"
          by (simp add: like_def)
        with 1 show ?thesis by simp
      qed
    qed
  qed
qed

text \<open>
  Claim C4. \<open>like\<close> is claimed to be idempotent: with the user id already in the likes
  of the article, a further identical call leaves the likes unchanged and the returned
  count does not increase. Evaluated with the user id \<open>00000000000000000000000A\<close>, an
  object id written with an upper-case digit, on the example article with one like: the
  first call stores the id and answers 2; the second, identical call does not find the
  stored id, because the test compares the request's string with the lower-case string
  form of the entries, stores the id again and answers 3.
\<close>

theorem like_repeated_upper_case_id:
  "findById ''000000000000000000000001'' (articles exampleDb) = Inr (Some budgetArticle)
   \<and> likes budgetArticle = Some [ObjectId 2]
   \<and> snd (like ''000000000000000000000001'' ''00000000000000000000000A'' exampleDb)
       = \<lparr>status = 200, body = LikesCount 2\<rparr>
   \<and> findById ''000000000000000000000001''
        (articles (fst (like ''000000000000000000000001'' ''00000000000000000000000A'' exampleDb)))
       = Inr (Some (budgetArticle\<lparr>likes := Some [ObjectId 2, ObjectId 10]\<rparr>))
   \<and> snd (like ''000000000000000000000001'' ''00000000000000000000000A''
            (fst (like ''000000000000000000000001'' ''00000000000000000000000A'' exampleDb)))
       = \<lparr>status = 200, body = LikesCount 3\<rparr>
   \<and> findById ''000000000000000000000001''
        (articles (fst (like ''000000000000000000000001'' ''00000000000000000000000A''
            (fst (like ''000000000000000000000001'' ''00000000000000000000000A'' exampleDb)))))
       = Inr (Some (budgetArticle\<lparr>likes := Some [ObjectId 2, ObjectId 10, ObjectId 10]\<rparr>))"
  by code_simp

text \<open>
  An article stored without its \<open>likes\<close> array is loaded with an empty one: \<open>like\<close> stores
  the first like and answers 1, and \<open>unlike\<close> of a user who never liked it answers 0 and
  stores the empty array.
\<close>

lemma like_article_without_likes:
  "likes lateArticle = None
   \<and> like ''000000000000000000000004'' ''00000000000000000000000a'' exampleDb
       = (exampleDb\<lparr>articles :=
            [budgetArticle, cupArticle, lateArticle\<lparr>likes := Some [ObjectId 10]\<rparr>]\<rparr>,
          \<lparr>status = 200, body = LikesCount 1\<rparr>)
   \<and> unlike ''000000000000000000000004'' ''00000000000000000000000a'' exampleDb
       = (exampleDb\<lparr>articles := [budgetArticle, cupArticle, lateArticle\<lparr>likes := Some []\<rparr>]\<rparr>,
          \<lparr>status = 200, body = LikesCount 0\<rparr>)"
  by code_simp




section \<open>Webhook: properties\<close>

lemma saveNewUser_conflict:
  "cid \<noteq> [] \<Longrightarrow> \<exists>u \<in> set (users d). clerkUserId u = cid \<Longrightarrow>
   saveNewUser cid fn ln em d = Inl (DuplicateKeyError ''E11000 duplicate key error'')"
  by (simp add: saveNewUser_def)

lemma webhooks_created_existing:
  assumes "event_type b = Some ''user.created''" "data b = Some ud"
    "email_addresses ud = Some addrs" "data_id ud = Some cid" "cid \<noteq> []"
    "\<exists>u \<in> set (users d). clerkUserId u = cid"
  shows "webhooks b d =
           (d, \<lparr>status = 500, body = SuccessMessage False ''E11000 duplicate key error''\<rparr>)"
  using assms by (simp add: webhooks_def saveNewUser_def)

lemma webhooks_created_new:
  assumes "event_type b = Some ''user.created''" "data b = Some ud"
    "email_addresses ud = Some addrs" "data_id ud = Some cid" "cid \<noteq> []"
    "\<forall>u \<in> set (users d). clerkUserId u \<noteq> cid"
  shows "webhooks b d =
           (d\<lparr>users := users d @
                 [\<lparr>user_id = ObjectId (nextId d), clerkUserId = cid,
                   firstName = first_name ud, lastName = last_name ud,
                   email = (case addrs of [] \<Rightarrow> None | a # _ \<Rightarrow> address_email a)\<rparr>],
               nextId := nextId d + 1\<rparr>,
            \<lparr>status = 200, body = SuccessMessage True ''User created successfully''\<rparr>)"
  using assms by (simp add: webhooks_def saveNewUser_def)

text \<open>
  Claim C6. A \<open>user.created\<close> event whose external id a stored user already has is
  rejected: saving the user fails on the unique index (the conflict), the handler answers
  500 with that error's message, and the store is unchanged. So of two identical events
  the second one creates no duplicate, and exactly one user has the external id
  afterwards. (At most one user has the id beforehand, which is what the unique index
  on \<open>clerkUserId\<close> maintains.)
\<close>

theorem webhooks_duplicate_rejected:
  assumes "event_type b = Some ''user.created''" "data b = Some ud"
    "email_addresses ud = Some addrs" "data_id ud = Some cid" "cid \<noteq> []"
    "length (filter (\<lambda>u. clerkUserId u = cid) (users d)) \<le> 1"
  shows "\<exists>d1 r1.
           webhooks b d = (d1, r1)
         \<and> saveNewUser cid (first_name ud) (last_name ud)
              (case addrs of [] \<Rightarrow> None | a # _ \<Rightarrow> address_email a) d1
             = Inl (DuplicateKeyError ''E11000 duplicate key error'')
         \<and> webhooks b d1 =
             (d1, \<lparr>status = 500, body = SuccessMessage False ''E11000 duplicate key error''\<rparr>)
         \<and> length (filter (\<lambda>u. clerkUserId u = cid) (users d1)) = 1
         \<and> ((\<exists>u \<in> set (users d). clerkUserId u = cid) \<longrightarrow> d1 = d \<and> status r1 = 500)"
proof (cases "\<exists>u \<in> set (users d). clerkUserId u = cid")
  case True
  then have "filter (\<lambda>u. clerkUserId u = cid) (users d) \<noteq> []"
    by (simp add: filter_empty_conv)
  then have "length (filter (\<lambda>u. clerkUserId u = cid) (users d)) = 1"
    using assms(6) by (cases "filter (\<lambda>u. clerkUserId u = cid) (users d)") auto
  with True webhooks_created_existing [OF assms(1-5) True]
    saveNewUser_conflict [OF assms(5) True]
  show ?thesis by simp
next
  case False
  then have no: "\<forall>u \<in> set (users d). clerkUserId u \<noteq> cid" by simp
  let ?u = "\<lparr>user_id = ObjectId (nextId d), clerkUserId = cid,
                   firstName = first_name ud, lastName = last_name ud,
                   email = (case addrs of [] \<Rightarrow> None | a # _ \<Rightarrow> address_email a)\<rparr>"
  let ?d1 = "d\<lparr>users := users d @ [?u], nextId := nextId d + 1\<rparr>"
  have 1: "webhooks b d = (?d1,
      \<lparr>status = 200, body = SuccessMessage True ''User created successfully''\<rparr>)"
    using webhooks_created_new [OF assms(1-5) no] .
  have ex: "\<exists>u \<in> set (users ?d1). clerkUserId u = cid" by simp
  have "filter (\<lambda>u. clerkUserId u = cid) (users d) = []"
    using no by (simp add: filter_empty_conv)
  then have "length (filter (\<lambda>u. clerkUserId u = cid) (users ?d1)) = 1" by simp
  with 1 False webhooks_created_existing [OF assms(1-5) ex] saveNewUser_conflict [OF assms(5) ex]
  show ?thesis by blast
qed

theorem webhooks_duplicate_rejected_witness:
  "\<exists>d1. webhooks (createdEvent [EmailAddress (Some ''a@b.com'')]) emptyDb
           = (d1, \<lparr>status = 200, body = SuccessMessage True ''User created successfully''\<rparr>)
       \<and> webhooks (createdEvent [EmailAddress (Some ''a@b.com'')]) d1
           = (d1, \<lparr>status = 500, body = SuccessMessage False ''E11000 duplicate key error''\<rparr>)
       \<and> length (filter (\<lambda>u. clerkUserId u = ''u1'') (users d1)) = 1"
proof -
  let ?b = "createdEvent [EmailAddress (Some ''a@b.com'')]"
  let ?ud = "\<lparr>data_id = Some ''u1'', first_name = Some ''A'', last_name = Some ''B'',
              email_addresses = Some [EmailAddress (Some ''a@b.com'')]\<rparr>"
  have h: "event_type ?b = Some ''user.created''" "data ?b = Some ?ud"
    "email_addresses ?ud = Some [EmailAddress (Some ''a@b.com'')]"
    "data_id ?ud = Some ''u1''" "''u1'' \<noteq> []"
    "length (filter (\<lambda>u. clerkUserId u = ''u1'') (users emptyDb)) \<le> 1"
    by (simp_all add: createdEvent_def emptyDb_def)
  have first: "webhooks ?b emptyDb
      = (\<lparr>articles = [], users = [\<lparr>user_id = ObjectId 0, clerkUserId = ''u1'',
             firstName = Some ''A'', lastName = Some ''B'', email = Some ''a@b.com''\<rparr>],
           nextId = 1\<rparr>,
         \<lparr>status = 200, body = SuccessMessage True ''User created successfully''\<rparr>)"
    by code_simp
  from webhooks_duplicate_rejected [OF h] first show ?thesis by auto
qed

text \<open>
  Claim C8. A \<open>user.created\<close> event that carries a non-empty external id no stored user
  has, and an address list, creates a user whose email is the email of the first entry
  of the list; when the list is empty the user is created all the same, with no email.
\<close>

theorem webhooks_created_email:
  assumes "event_type b = Some ''user.created''" "data b = Some ud"
    "email_addresses ud = Some addrs" "data_id ud = Some cid" "cid \<noteq> []"
    "\<forall>u \<in> set (users d). clerkUserId u \<noteq> cid"
  shows "\<exists>d' u.
           webhooks b d =
             (d', \<lparr>status = 200, body = SuccessMessage True ''User created successfully''\<rparr>)
         \<and> users d' = users d @ [u]
         \<and> clerkUserId u = cid
         \<and> email u = (case addrs of [] \<Rightarrow> None | a # _ \<Rightarrow> address_email a)
         \<and> (addrs = [] \<longrightarrow> email u = None)"
  using webhooks_created_new [OF assms] by auto

theorem webhooks_created_email_witness:
  "(\<exists>d' u. webhooks (createdEvent [EmailAddress (Some ''a@b.com''),
                                    EmailAddress (Some ''c@d.org'')]) emptyDb
             = (d', \<lparr>status = 200, body = SuccessMessage True ''User created successfully''\<rparr>)
          \<and> users d' = [u] \<and> clerkUserId u = ''u1'' \<and> email u = Some ''a@b.com'')
   \<and> (\<exists>d' u. webhooks (createdEvent []) emptyDb
             = (d', \<lparr>status = 200, body = SuccessMessage True ''User created successfully''\<rparr>)
          \<and> users d' = [u] \<and> clerkUserId u = ''u1'' \<and> email u = None)"
proof -
  have h: "event_type (createdEvent addrs) = Some ''user.created''"
    "data (createdEvent addrs)
       = Some \<lparr>data_id = Some ''u1'', first_name = Some ''A'', last_name = Some ''B'',
                email_addresses = Some addrs\<rparr>"
    "email_addresses \<lparr>data_id = Some ''u1'', first_name = Some ''A'', last_name = Some ''B'',
                email_addresses = Some addrs\<rparr> = Some addrs"
    "data_id \<lparr>data_id = Some ''u1'', first_name = Some ''A'', last_name = Some ''B'',
                email_addresses = Some addrs\<rparr> = Some ''u1''"
    "''u1'' \<noteq> []"
    "\<forall>u \<in> set (users emptyDb). clerkUserId u \<noteq> ''u1''" for addrs
    by (simp_all add: createdEvent_def emptyDb_def)
  have e: "users emptyDb = []" by (simp add: emptyDb_def)
  from webhooks_created_email
         [OF h, of "[EmailAddress (Some ''a@b.com''), EmailAddress (Some ''c@d.org'')]"] e
  have 1: "\<exists>d' u. webhooks (createdEvent [EmailAddress (Some ''a@b.com''),
                                    EmailAddress (Some ''c@d.org'')]) emptyDb
             = (d', \<lparr>status = 200, body = SuccessMessage True ''User created successfully''\<rparr>)
          \<and> users d' = [u] \<and> clerkUserId u = ''u1'' \<and> email u = Some ''a@b.com''"
    by simp
  from webhooks_created_email [OF h, of "[]"] e
  have 2: "\<exists>d' u. webhooks (createdEvent []) emptyDb
             = (d', \<lparr>status = 200, body = SuccessMessage True ''User created successfully''\<rparr>)
          \<and> users d' = [u] \<and> clerkUserId u = ''u1'' \<and> email u = None"
    by simp
  from 1 2 show ?thesis by simp
qed

text \<open>
  A \<open>user.created\<close> event without the address list creates no user: reading the first
  entry throws, and the handler answers 500.
\<close>

lemma webhooks_created_without_address_list:
  assumes "event_type b = Some ''user.created''" "data b = Some ud"
    "email_addresses ud = None"
  shows "webhooks b d =
           (d, \<lparr>status = 500,
                body = SuccessMessage False ''Cannot read properties of undefined (reading '0')''\<rparr>)"
  using assms by (simp add: webhooks_def)

section \<open>Category routes: properties\<close>

lemma findByCategory_empty:
  "\<forall>a \<in> set (articles d). category a \<noteq> Some c \<Longrightarrow> findByCategory c (articles d) = []"
  by (simp add: findByCategory_def filter_empty_conv)

text \<open>
  Claim C9. Every category route answers 200, whatever is stored, and with the empty
  list when no stored article has the route's category: the generic route
  \<open>/categories/:category\<close> and the fixed routes \<open>/headlines\<close>, \<open>/sports\<close>, \<open>/health\<close>,
  \<open>/business\<close> and \<open>/technology\<close>. None of them has a not-found answer.
\<close>

theorem category_routes_empty_is_200:
  "((\<forall>a \<in> set (articles d). category a \<noteq> Some c) \<longrightarrow>
      getCategory c d = (d, \<lparr>status = 200, body = Articles []\<rparr>))
   \<and> ((\<forall>a \<in> set (articles d). category a \<noteq> Some ''general'') \<longrightarrow>
      getHeadlines d = (d, \<lparr>status = 200, body = Headlines []\<rparr>))
   \<and> ((\<forall>a \<in> set (articles d). category a \<noteq> Some ''sports'') \<longrightarrow>
      getSports d = (d, \<lparr>status = 200, body = Articles []\<rparr>))
   \<and> ((\<forall>a \<in> set (articles d). category a \<noteq> Some ''health'') \<longrightarrow>
      getHealth d = (d, \<lparr>status = 200, body = Articles []\<rparr>))
   \<and> ((\<forall>a \<in> set (articles d). category a \<noteq> Some ''business'') \<longrightarrow>
      getBusiness d = (d, \<lparr>status = 200, body = Articles []\<rparr>))
   \<and> ((\<forall>a \<in> set (articles d). category a \<noteq> Some ''technology'') \<longrightarrow>
      getTechnology d = (d, \<lparr>status = 200, body = Articles []\<rparr>))
   \<and> status (snd (getCategory c d)) = 200 \<and> status (snd (getHeadlines d)) = 200
   \<and> status (snd (getSports d)) = 200 \<and> status (snd (getHealth d)) = 200
   \<and> status (snd (getBusiness d)) = 200 \<and> status (snd (getTechnology d)) = 200"
  by (simp add: getCategory_def getHeadlines_def getSports_def getHealth_def getBusiness_def
        getTechnology_def findByCategory_empty)

theorem category_routes_empty_is_200_witness:
  "getCategory ''science'' exampleDb = (exampleDb, \<lparr>status = 200, body = Articles []\<rparr>)
   \<and> getHeadlines emptyDb = (emptyDb, \<lparr>status = 200, body = Headlines []\<rparr>)
   \<and> getSports emptyDb = (emptyDb, \<lparr>status = 200, body = Articles []\<rparr>)
   \<and> getHealth exampleDb = (exampleDb, \<lparr>status = 200, body = Articles []\<rparr>)
   \<and> getBusiness exampleDb = (exampleDb, \<lparr>status = 200, body = Articles []\<rparr>)
   \<and> getTechnology exampleDb = (exampleDb, \<lparr>status = 200, body = Articles []\<rparr>)"
proof -
  have c: "\<forall>a \<in> set (articles exampleDb). category a \<noteq> Some ''science''"
    "\<forall>a \<in> set (articles exampleDb). category a \<noteq> Some ''health''"
    "\<forall>a \<in> set (articles exampleDb). category a \<noteq> Some ''business''"
    "\<forall>a \<in> set (articles exampleDb). category a \<noteq> Some ''technology''"
    by (simp_all add: exampleDb_def budgetArticle_def cupArticle_def lateArticle_def
          exampleArticle_def)
  have e: "\<forall>a \<in> set (articles emptyDb). category a \<noteq> Some ''general''"
    "\<forall>a \<in> set (articles emptyDb). category a \<noteq> Some ''sports''"
    by (simp_all add: emptyDb_def)
  from category_routes_empty_is_200 [of exampleDb "''science''"] c
  have 1: "getCategory ''science'' exampleDb = (exampleDb, \<lparr>status = 200, body = Articles []\<rparr>)"
    "getHealth exampleDb = (exampleDb, \<lparr>status = 200, body = Articles []\<rparr>)"
    "getBusiness exampleDb = (exampleDb, \<lparr>status = 200, body = Articles []\<rparr>)"
    "getTechnology exampleDb = (exampleDb, \<lparr>status = 200, body = Articles []\<rparr>)"
    by blast+
  from category_routes_empty_is_200 [of emptyDb "''general''"] e
  have 2: "getHeadlines emptyDb = (emptyDb, \<lparr>status = 200, body = Headlines []\<rparr>)"
    "getSports emptyDb = (emptyDb, \<lparr>status = 200, body = Articles []\<rparr>)"
    by blast+
  from 1 2 show ?thesis by simp
qed

lemma truncate_extend:
  "article.truncate (article.extend (a :: article) (headline.fields n)) = a"
  by (cases a) (simp add: article.defs headline.defs feed_article.defs)

lemma extend_likes:
  "likes (article.extend (a :: article) (headline.fields n)) = likes a"
  "likeCount (article.extend (a :: article) (headline.fields n)) = n"
  by (cases a; simp add: article.defs headline.defs feed_article.defs)+

text \<open>
  Claim C10. \<open>GET /headlines\<close> answers 200 with one item per stored article of category
  \<open>general\<close>, in stored order, each item being the article (as loaded) with a
  \<open>likeCount\<close> added:
  the number of entries of the article's \<open>likes\<close>, and 0 when the article has no \<open>likes\<close>
  field. The store is returned as it was: serving the request modifies no article.
\<close>

theorem getHeadlines_likeCount:
  "\<exists>hs. getHeadlines d = (d, \<lparr>status = 200, body = Headlines hs\<rparr>)
     \<and> map article.truncate hs = findByCategory ''general'' (articles d)
     \<and> (\<forall>h \<in> set hs. likeCount h = (case likes h of None \<Rightarrow> 0 | Some ls \<Rightarrow> length ls))"
proof -
  let ?hs = "map (\<lambda>a. article.extend a (headline.fields (likeCountOf a)))
               (findByCategory ''general'' (articles d))"
  have "getHeadlines d = (d, \<lparr>status = 200, body = Headlines ?hs\<rparr>)"
    by (simp add: getHeadlines_def)
  moreover have "map article.truncate ?hs = findByCategory ''general'' (articles d)"
    by (simp add: comp_def truncate_extend)
  moreover have "\<forall>h \<in> set ?hs. likeCount h = (case likes h of None \<Rightarrow> 0 | Some ls \<Rightarrow> length ls)"
    by (auto simp: extend_likes likeCountOf_def)
  ultimately show ?thesis by blast
qed

theorem getHeadlines_likeCount_witness:
  "\<exists>hs. getHeadlines exampleDb = (exampleDb, \<lparr>status = 200, body = Headlines hs\<rparr>)
     \<and> map article.truncate hs = [budgetArticle, lateArticle\<lparr>likes := Some []\<rparr>]
     \<and> map likeCount hs = [1, 0]"
proof -
  from getHeadlines_likeCount [of exampleDb]
  obtain hs where g: "getHeadlines exampleDb = (exampleDb, \<lparr>status = 200, body = Headlines hs\<rparr>)"
    and t: "map article.truncate hs = findByCategory ''general'' (articles exampleDb)"
    and c: "\<forall>h \<in> set hs. likeCount h = (case likes h of None \<Rightarrow> 0 | Some ls \<Rightarrow> length ls)"
    by blast
  have f: "findByCategory ''general'' (articles exampleDb)
             = [budgetArticle, lateArticle\<lparr>likes := Some []\<rparr>]"
    by code_simp
  from t f obtain h1 h2 where hs: "hs = [h1, h2]"
    and h: "article.truncate h1 = budgetArticle"
      "article.truncate h2 = lateArticle\<lparr>likes := Some []\<rparr>"
    by (auto simp: map_eq_Cons_conv)
  have l: "likes (article.truncate x) = likes x" for x :: headline
    by (simp add: article.defs)
  from h l [of h1] l [of h2] have "likes h1 = Some [ObjectId 2]" "likes h2 = Some []"
    by (simp_all add: budgetArticle_def lateArticle_def exampleArticle_def)
  with c hs have "map likeCount hs = [1, 0]" by simp
  with g t f show ?thesis by (intro exI [of _ hs]) simp
qed

end
